theory Spec2Isabelle
  imports Complex_Main "HOL-Library.AList"
begin

section \<open>The OmniAPI server: values and state\<close>

text \<open>
  The server of \<^verbatim>\<open>src/omniapi.js\<close> keeps a registry \<^verbatim>\<open>this.apis\<close> (a JavaScript
  \<^verbatim>\<open>Map\<close>) and answers four tools: \<^verbatim>\<open>add_api\<close>, \<^verbatim>\<open>list_apis\<close>, \<^verbatim>\<open>call_api\<close> and
  \<^verbatim>\<open>discover_api\<close>.

  A string of the language is the list of its UTF-16 code units, each a natural number.
  \<open>str\<close> gives the string of a literal written in ASCII. The glyphs of the message
  templates that lie outside ASCII are the named constants below, each given by its code
  units.
\<close>

type_synonym code_unit = nat

type_synonym jsstring = "code_unit list"

definition str :: "string \<Rightarrow> jsstring" where
  "str s = map of_char s"

definition glyph_check :: jsstring where
  "glyph_check = [0x2705]"

definition glyph_memo :: jsstring where
  "glyph_memo = [0xD83D, 0xDCDD]"

definition glyph_clipboard :: jsstring where
  "glyph_clipboard = [0xD83D, 0xDCCB]"

definition glyph_globe :: jsstring where
  "glyph_globe = [0xD83C, 0xDF10]"

definition glyph_magnifier :: jsstring where
  "glyph_magnifier = [0xD83D, 0xDD0D]"

definition glyph_cross :: jsstring where
  "glyph_cross = [0x274C]"

definition glyph_bulb :: jsstring where
  "glyph_bulb = [0xD83D, 0xDCA1]"

definition glyph_bullet :: jsstring where
  "glyph_bullet = [0x2022]"

text \<open>
  A value that \<^verbatim>\<open>JSON.parse\<close> returns. An object is the list of its own properties in
  the order in which the engine enumerates them, an array the list of its elements. A
  number keeps its real value; only whether it is zero is ever inspected.
\<close>

datatype json =
    JNull
  | JBool bool
  | JNum real
  | JStr jsstring
  | JArr "json list"
  | JObj "(jsstring \<times> json) list"

text \<open>A thrown value is an error object; the handler reads its \<^verbatim>\<open>message\<close> only.\<close>

datatype error =
    Error jsstring
  | TypeError jsstring
  | SyntaxError jsstring
  | FetchError jsstring

fun message :: "error \<Rightarrow> jsstring" where
  "message (Error m) = m"
| "message (TypeError m) = m"
| "message (SyntaxError m) = m"
| "message (FetchError m) = m"

text \<open>
  The \<^verbatim>\<open>arguments\<close> object of a tool call. Every property of the four input schemas
  is optional here (\<open>None\<close> is \<^verbatim>\<open>undefined\<close>), and a property that is present has the
  type its schema declares.
\<close>

record args =
  arg_name :: "jsstring option"
  arg_baseUrl :: "jsstring option"
  arg_headers :: "(jsstring \<times> jsstring) list option"
  arg_api :: "jsstring option"
  arg_endpoint :: "jsstring option"
  arg_method :: "jsstring option"
  arg_body :: "json option"
  arg_params :: "(jsstring \<times> jsstring) list option"

text \<open>What a template literal prints for a string that may be \<^verbatim>\<open>undefined\<close>.\<close>

fun display :: "jsstring option \<Rightarrow> jsstring" where
  "display None = str ''undefined''"
| "display (Some s) = s"

text \<open>
  A registry entry, and the registry: the entries of the \<^verbatim>\<open>Map\<close> in insertion order.
  \<^verbatim>\<open>Map.set\<close> replaces the value of a key that is present where it stands and appends a
  new key, which is \<^const>\<open>AList.update\<close>.
\<close>

record api_config =
  cfg_baseUrl :: jsstring
  cfg_headers :: "(jsstring \<times> jsstring) list"

record server =
  apis :: "(jsstring option \<times> api_config) list"

definition has :: "server \<Rightarrow> jsstring option \<Rightarrow> bool" where
  "has this k = (k \<in> fst ` set (apis this))"

definition get :: "server \<Rightarrow> jsstring option \<Rightarrow> api_config option" where
  "get this k = map_of (apis this) k"

definition set_api :: "server \<Rightarrow> jsstring option \<Rightarrow> api_config \<Rightarrow> server" where
  "set_api this k v = this\<lparr>apis := AList.update k v (apis this)\<rparr>"

definition constructor :: server where
  "constructor = \<lparr>apis = []\<rparr>"

text \<open>A tool result: its content blocks (always text) and the \<^verbatim>\<open>isError\<close> flag, which is
  \<open>False\<close> where the source leaves it out.\<close>

datatype block = Text jsstring

record result =
  content :: "block list"
  isError :: bool

definition text_result :: "jsstring \<Rightarrow> result" where
  "text_result t = \<lparr>content = [Text t], isError = False\<rparr>"

section \<open>Objects of the language\<close>

text \<open>The decimal numeral of a natural number, as a template literal prints it.\<close>

definition digit :: "nat \<Rightarrow> code_unit" where
  "digit d = of_char (CHR ''0'') + d"

fun string_of_nat :: "nat \<Rightarrow> jsstring" where
  "string_of_nat n =
     (if n < 10 then [digit n] else string_of_nat (n div 10) @ [digit (n mod 10)])"

declare string_of_nat.simps [simp del]

text \<open>
  An object with string values is the list of its own properties in the order of
  enumeration: first the keys that are array indices (the canonical numerals of the
  numbers below \<open>2\<^sup>3\<^sup>2 - 1\<close>), ascending, then the other keys in the order in which they
  were created. \<open>array_index\<close> reads a key as an array index.
\<close>

definition is_digit :: "code_unit \<Rightarrow> bool" where
  "is_digit u = (of_char (CHR ''0'') \<le> u \<and> u \<le> of_char (CHR ''9''))"

definition digits_value :: "jsstring \<Rightarrow> nat" where
  "digits_value k = foldl (\<lambda>n u. 10 * n + (u - of_char (CHR ''0''))) 0 k"

definition array_index :: "jsstring \<Rightarrow> nat option" where
  "array_index k =
     (if k \<noteq> [] \<and> list_all is_digit k \<and> (length k = 1 \<or> hd k \<noteq> of_char (CHR ''0''))
         \<and> digits_value k < 4294967295
      then Some (digits_value k) else None)"

text \<open>A new array index goes before the first property that is not a smaller index.\<close>

fun insert_index :: "nat \<Rightarrow> jsstring \<times> 'v \<Rightarrow> (jsstring \<times> 'v) list \<Rightarrow> (jsstring \<times> 'v) list" where
  "insert_index n p [] = [p]"
| "insert_index n p (q # rest) =
     (case array_index (fst q) of
        None \<Rightarrow> p # q # rest
      | Some m \<Rightarrow> if m < n then q # insert_index n p rest else p # q # rest)"

text \<open>Setting a property: a key that is present keeps its place, a new one is created.\<close>

definition put_property :: "(jsstring \<times> 'v) list \<Rightarrow> jsstring \<Rightarrow> 'v \<Rightarrow> (jsstring \<times> 'v) list" where
  "put_property obj k v =
     (if k \<in> fst ` set obj then AList.update k v obj
      else case array_index k of
             None \<Rightarrow> obj @ [(k, v)]
           | Some n \<Rightarrow> insert_index n (k, v) obj)"

text \<open>\<^verbatim>\<open>{ ...base, ...obj }\<close>: each property of \<open>obj\<close> in turn is set on the copy of \<open>base\<close>.
  \<^verbatim>\<open>Object.fromEntries\<close>: each entry in turn is set on an empty object.\<close>

definition spread :: "(jsstring \<times> 'v) list \<Rightarrow> (jsstring \<times> 'v) list \<Rightarrow> (jsstring \<times> 'v) list" where
  "spread base obj = fold (\<lambda>(k, v) acc. put_property acc k v) obj base"

definition fromEntries :: "(jsstring \<times> 'v) list \<Rightarrow> (jsstring \<times> 'v) list" where
  "fromEntries entries = spread [] entries"

section \<open>add_api\<close>

text \<open>
  \<^verbatim>\<open>baseUrl.replace(/\/+$/, '')\<close>: the pattern has no \<^verbatim>\<open>g\<close> flag, so the leftmost
  match is replaced. A match starts at the first position that holds a slash and is
  followed by slashes only up to the end of the input.
\<close>

definition slash :: code_unit where
  "slash = of_char (CHR ''/'')"

fun replace_trailing_slashes :: "jsstring \<Rightarrow> jsstring" where
  "replace_trailing_slashes [] = []"
| "replace_trailing_slashes (c # cs) =
     (if c = slash \<and> list_all (\<lambda>x. x = slash) cs then []
      else c # replace_trailing_slashes cs)"

definition default_headers :: "(jsstring \<times> jsstring) list" where
  "default_headers = [(str ''Content-Type'', str ''application/json'')]"

definition added_text :: "jsstring option \<Rightarrow> jsstring \<Rightarrow> jsstring" where
  \<open>added_text name cleanUrl =
     glyph_check @ str '' API "'' @ display name @ str ''" added successfully!\<newline>URL: '' @ cleanUrl
     @ str ''\<newline>\<newline>You can now use:\<newline>- call_api to make calls\<newline>- discover_api to discover endpoints''\<close>

text \<open>The entry that \<^verbatim>\<open>addApi\<close> builds from its arguments.\<close>

definition new_entry :: "jsstring \<Rightarrow> (jsstring \<times> jsstring) list option \<Rightarrow> api_config" where
  "new_entry baseUrl headers =
     \<lparr>cfg_baseUrl = replace_trailing_slashes baseUrl,
      cfg_headers = spread default_headers (case headers of None \<Rightarrow> [] | Some h \<Rightarrow> h)\<rparr>"

text \<open>
  \<^verbatim>\<open>addApi\<close> returns its outcome and the server afterwards. Destructuring \<^verbatim>\<open>undefined\<close>
  and calling \<^verbatim>\<open>replace\<close> on \<^verbatim>\<open>undefined\<close> raise a \<^verbatim>\<open>TypeError\<close> (the wording is V8's)
  before the registry is touched.
\<close>

definition addApi :: "server \<Rightarrow> args option \<Rightarrow> (error + result) \<times> server" where
  "addApi this args =
     (case args of
        None \<Rightarrow>
          (Inl (TypeError (str ''Cannot destructure property 'name' of 'args' as it is undefined.'')),
           this)
      | Some a \<Rightarrow>
          (case arg_baseUrl a of
             None \<Rightarrow>
               (Inl (TypeError (str ''Cannot read properties of undefined (reading 'replace')'')),
                this)
           | Some baseUrl \<Rightarrow>
               (Inr (text_result (added_text (arg_name a) (replace_trailing_slashes baseUrl))),
                set_api this (arg_name a) (new_entry baseUrl (arg_headers a)))))"

section \<open>The platform\<close>

text \<open>
  \<^verbatim>\<open>fetch\<close>, \<^verbatim>\<open>JSON.parse\<close>, \<^verbatim>\<open>JSON.stringify\<close>, \<^verbatim>\<open>URLSearchParams\<close> and
  \<^verbatim>\<open>String.prototype.toUpperCase\<close> are not code of this repository: the server is a
  function of them. A request is the URL and the options object handed to \<^verbatim>\<open>fetch\<close>
  (\<open>None\<close> is a property left out). \<^verbatim>\<open>fetch\<close> either rejects or resolves to a response,
  and reading the body of a response (\<^verbatim>\<open>text()\<close>, and \<^verbatim>\<open>json()\<close>, which parses that text)
  either rejects or yields its text. Every promise that the server awaits is taken to
  settle. Within one tool call no two requests are equal, so a function from requests
  does not restrict what the network may answer. \<^verbatim>\<open>JSON.parse\<close> gives \<open>None\<close> where it
  throws; the first argument of \<^verbatim>\<open>JSON.stringify\<close> here is the indentation (\<open>0\<close> for
  none).
\<close>

record request =
  req_url :: jsstring
  req_method :: "jsstring option"
  req_headers :: "(jsstring \<times> jsstring) list"
  req_body :: "jsstring option"

record response =
  resp_status :: nat
  resp_statusText :: jsstring
  resp_headers :: "(jsstring \<times> jsstring) list"
  resp_text :: "error + jsstring"

record platform =
  fetch :: "request \<Rightarrow> error + response"
  JSON_parse :: "jsstring \<Rightarrow> json option"
  JSON_stringify :: "nat \<Rightarrow> json \<Rightarrow> jsstring"
  URLSearchParams_toString :: "(jsstring \<times> jsstring) list \<Rightarrow> jsstring"
  toUpperCase :: "jsstring \<Rightarrow> jsstring"

definition ok :: "response \<Rightarrow> bool" where
  "ok r = (200 \<le> resp_status r \<and> resp_status r < 300)"

definition json_body :: "platform \<Rightarrow> response \<Rightarrow> error + json" where
  "json_body P r =
     (case resp_text r of
        Inl e \<Rightarrow> Inl e
      | Inr t \<Rightarrow>
          (case JSON_parse P t of
             None \<Rightarrow> Inl (SyntaxError (str ''invalid json response body''))
           | Some v \<Rightarrow> Inr v))"

subsection \<open>Library functions of the language\<close>

fun join :: "jsstring \<Rightarrow> jsstring list \<Rightarrow> jsstring" where
  "join sep [] = []"
| "join sep [x] = x"
| "join sep (x # y # ys) = x @ sep @ join sep (y # ys)"

definition startsWith :: "jsstring \<Rightarrow> jsstring \<Rightarrow> bool" where
  "startsWith s p = (take (length p) s = p)"

text \<open>Truthiness of a value, and of a property that may be \<^verbatim>\<open>undefined\<close>.\<close>

fun truthy :: "json \<Rightarrow> bool" where
  "truthy JNull = False"
| "truthy (JBool b) = b"
| "truthy (JNum x) = (x \<noteq> 0)"
| "truthy (JStr s) = (s \<noteq> [])"
| "truthy (JArr xs) = True"
| "truthy (JObj kvs) = True"

fun truthy_opt :: "json option \<Rightarrow> bool" where
  "truthy_opt None = False"
| "truthy_opt (Some v) = truthy v"

text \<open>
  The own enumerable properties of a value, in the order of \<^verbatim>\<open>Object.keys\<close>: the
  properties of an object, the indices of an array, the indices of the code units of a
  string. Inherited properties and \<^verbatim>\<open>length\<close> are left out: the source reads only \<^verbatim>\<open>paths\<close>,
  \<^verbatim>\<open>swagger\<close>, \<^verbatim>\<open>openapi\<close> and names that \<^verbatim>\<open>Object.keys\<close> has listed.
\<close>

fun own_properties :: "json \<Rightarrow> (jsstring \<times> json) list" where
  "own_properties (JObj kvs) = kvs"
| "own_properties (JArr xs) = zip (map string_of_nat [0..<length xs]) xs"
| "own_properties (JStr s) = zip (map string_of_nat [0..<length s]) (map (\<lambda>u. JStr [u]) s)"
| "own_properties v = []"

text \<open>\<^verbatim>\<open>v[k]\<close> and \<^verbatim>\<open>Object.keys(v)\<close>; both throw on \<^verbatim>\<open>null\<close> and on \<^verbatim>\<open>undefined\<close>.\<close>

definition get_property :: "json \<Rightarrow> jsstring \<Rightarrow> error + json option" where
  "get_property v k =
     (if v = JNull then Inl (TypeError (str ''Cannot read properties of null''))
      else Inr (map_of (own_properties v) k))"

definition Object_keys :: "json option \<Rightarrow> error + jsstring list" where
  "Object_keys v =
     (case v of
        None \<Rightarrow> Inl (TypeError (str ''Cannot convert undefined or null to object''))
      | Some JNull \<Rightarrow> Inl (TypeError (str ''Cannot convert undefined or null to object''))
      | Some w \<Rightarrow> Inr (map fst (own_properties w)))"

section \<open>list_apis\<close>

definition listApis :: "server \<Rightarrow> result" where
  "listApis this =
     (if length (apis this) = 0
      then text_result
             (glyph_memo @ str '' No APIs configured yet.\<newline>\<newline>Use add_api to add an API.'')
      else text_result (glyph_clipboard @ str '' Configured APIs:\<newline>\<newline>''
             @ join (str ''\<newline>'')
                 (map (\<lambda>(name, config).
                         glyph_bullet @ str '' '' @ display name @ str '': '' @ cfg_baseUrl config)
                    (apis this))))"

section \<open>call_api\<close>

text \<open>The target URL (lines 196 to 202 of the source).\<close>

definition build_url ::
  "platform \<Rightarrow> api_config \<Rightarrow> jsstring \<Rightarrow> (jsstring \<times> jsstring) list option \<Rightarrow> jsstring" where
  "build_url P apiConfig endpoint params =
     cfg_baseUrl apiConfig
     @ (if startsWith endpoint (str ''/'') then endpoint else str ''/'' @ endpoint)
     @ (case params of None \<Rightarrow> [] | Some ps \<Rightarrow> str ''?'' @ URLSearchParams_toString P ps)"

definition fetchOptions :: "platform \<Rightarrow> api_config \<Rightarrow> jsstring \<Rightarrow> args \<Rightarrow> request" where
  "fetchOptions P apiConfig url a =
     (let method = (case arg_method a of None \<Rightarrow> str ''GET'' | Some m \<Rightarrow> m)
      in \<lparr>req_url = url,
          req_method = Some method,
          req_headers = cfg_headers apiConfig,
          req_body =
            (if truthy_opt (arg_body a) \<and> method \<in> set [str ''POST'', str ''PUT'', str ''PATCH'']
             then map_option (JSON_stringify P 0) (arg_body a) else None)\<rparr>)"

text \<open>The \<^verbatim>\<open>result\<close> object that is printed into the answer.\<close>

definition response_result :: "response \<Rightarrow> json \<Rightarrow> json" where
  "response_result response responseData =
     JObj [(str ''status'', JNum (real (resp_status response))),
           (str ''statusText'', JStr (resp_statusText response)),
           (str ''headers'',
              JObj (map (\<lambda>(k, v). (k, JStr v)) (fromEntries (resp_headers response)))),
           (str ''data'', responseData)]"

definition response_text :: "platform \<Rightarrow> jsstring option \<Rightarrow> json \<Rightarrow> jsstring" where
  \<open>response_text P api result =
     glyph_globe @ str '' Response from API "'' @ display api @ str ''":\<newline>\<newline>''
     @ JSON_stringify P 2 result\<close>

definition not_found_call :: "jsstring option \<Rightarrow> jsstring" where
  \<open>not_found_call api =
     str ''API "'' @ display api @ str ''" not found. Use list_apis to see available APIs.''\<close>

text \<open>
  \<^verbatim>\<open>callApi\<close> returns its outcome (\<open>Inl\<close> what it throws) and the requests that it handed
  to \<^verbatim>\<open>fetch\<close>, in order.
\<close>

definition callApi :: "platform \<Rightarrow> server \<Rightarrow> args option \<Rightarrow> (error + result) \<times> request list" where
  "callApi P this args =
     (case args of
        None \<Rightarrow>
          (Inl (TypeError (str ''Cannot destructure property 'api' of 'args' as it is undefined.'')),
           [])
      | Some a \<Rightarrow>
          if \<not> has this (arg_api a) then (Inl (Error (not_found_call (arg_api a))), [])
          else
            (case get this (arg_api a) of
               None \<Rightarrow>
                 (Inl (TypeError (str ''Cannot read properties of undefined (reading 'baseUrl')'')),
                  [])
             | Some apiConfig \<Rightarrow>
                 (case arg_endpoint a of
                    None \<Rightarrow>
                      (Inl (TypeError
                              (str ''Cannot read properties of undefined (reading 'startsWith')'')),
                       [])
                  | Some endpoint \<Rightarrow>
                      (let url = build_url P apiConfig endpoint (arg_params a);
                           req = fetchOptions P apiConfig url a
                       in case fetch P req of
                            Inl e \<Rightarrow> (Inl e, [req])
                          | Inr response \<Rightarrow>
                              (case resp_text response of
                                 Inl e \<Rightarrow> (Inl e, [req])
                               | Inr responseText \<Rightarrow>
                                   (let responseData =
                                          (case JSON_parse P responseText of
                                             Some v \<Rightarrow> v
                                           | None \<Rightarrow> JStr responseText)
                                    in (Inr (text_result
                                               (response_text P (arg_api a)
                                                  (response_result response responseData))),
                                        [req])))))))"

section \<open>discover_api\<close>

definition commonPaths :: "jsstring list" where
  "commonPaths =
     [str ''/swagger.json'', str ''/openapi.json'', str ''/api-docs'', str ''/docs'',
      str ''/swagger/v1/swagger.json'', str ''/v1/swagger.json'',
      str ''/.well-known/openapi.json'']"

definition commonEndpoints :: "jsstring list" where
  "commonEndpoints =
     [str ''/'', str ''/api'', str ''/health'', str ''/status'', str ''/users'', str ''/posts'']"

text \<open>The two requests of discovery: a documentation probe carries the headers only, an
  endpoint probe the method \<^verbatim>\<open>HEAD\<close> as well; neither has a body.\<close>

definition doc_request :: "api_config \<Rightarrow> jsstring \<Rightarrow> request" where
  "doc_request apiConfig path =
     \<lparr>req_url = cfg_baseUrl apiConfig @ path, req_method = None,
      req_headers = cfg_headers apiConfig, req_body = None\<rparr>"

definition head_request :: "api_config \<Rightarrow> jsstring \<Rightarrow> request" where
  "head_request apiConfig endpoint =
     \<lparr>req_url = cfg_baseUrl apiConfig @ endpoint, req_method = Some (str ''HEAD''),
      req_headers = cfg_headers apiConfig, req_body = None\<rparr>"

definition found_line :: "jsstring \<Rightarrow> jsstring" where
  "found_line path =
     glyph_check @ str '' Documentation found at: '' @ path @ str ''\<newline>\<newline>''"

definition available_line :: jsstring where
  "available_line = glyph_clipboard @ str '' Available endpoints:\<newline>''"

definition endpoint_line :: "jsstring \<Rightarrow> jsstring \<Rightarrow> jsstring" where
  "endpoint_line endpoint methods =
     glyph_bullet @ str '' '' @ endpoint @ str '' ['' @ methods @ str '']\<newline>''"

text \<open>
  The \<^verbatim>\<open>forEach\<close> over \<^verbatim>\<open>Object.keys(doc.paths)\<close>. \<^verbatim>\<open>discovered\<close> is a variable of the
  enclosing function, so what has been appended stays when \<^verbatim>\<open>Object.keys\<close> throws in the
  middle: the function returns the error, if any, together with \<^verbatim>\<open>discovered\<close>.
\<close>

fun endpoint_lines ::
  "platform \<Rightarrow> json \<Rightarrow> jsstring list \<Rightarrow> jsstring \<Rightarrow> error option \<times> jsstring" where
  "endpoint_lines P paths [] discovered = (None, discovered)"
| "endpoint_lines P paths (endpoint # rest) discovered =
     (case Object_keys (map_of (own_properties paths) endpoint) of
        Inl e \<Rightarrow> (Some e, discovered)
      | Inr ks \<Rightarrow>
          endpoint_lines P paths rest
            (discovered @ endpoint_line endpoint (toUpperCase P (join (str '', '') ks))))"

text \<open>
  One round of the first loop, after \<^verbatim>\<open>fetch\<close> has resolved: either the function returns
  a result, or the loop goes on (the \<^verbatim>\<open>catch\<close> has swallowed what was thrown) with the
  value of \<^verbatim>\<open>discovered\<close> given.
\<close>

datatype step = Return result | Continue jsstring

definition read_doc :: "platform \<Rightarrow> jsstring \<Rightarrow> json \<Rightarrow> jsstring \<Rightarrow> step" where
  "read_doc P path doc discovered =
     (case get_property doc (str ''paths'') of
        Inl e \<Rightarrow> Continue discovered
      | Inr paths \<Rightarrow>
          (case get_property doc (str ''swagger'') of
             Inl e \<Rightarrow> Continue discovered
           | Inr swagger \<Rightarrow>
               (case get_property doc (str ''openapi'') of
                  Inl e \<Rightarrow> Continue discovered
                | Inr openapi \<Rightarrow>
                    if truthy_opt paths \<or> truthy_opt swagger \<or> truthy_opt openapi then
                      (let found = discovered @ found_line path
                       in if truthy_opt paths then
                            (case Object_keys paths of
                               Inl e \<Rightarrow> Continue (found @ available_line)
                             | Inr ks \<Rightarrow>
                                 (case paths of
                                    None \<Rightarrow> Continue (found @ available_line)
                                  | Some p \<Rightarrow>
                                      (case endpoint_lines P p ks (found @ available_line) of
                                         (Some e, d) \<Rightarrow> Continue d
                                       | (None, d) \<Rightarrow> Return (text_result d))))
                          else Return (text_result found))
                    else Continue discovered)))"

definition probe_doc :: "platform \<Rightarrow> api_config \<Rightarrow> jsstring \<Rightarrow> jsstring \<Rightarrow> step" where
  "probe_doc P apiConfig path discovered =
     (case fetch P (doc_request apiConfig path) of
        Inl e \<Rightarrow> Continue discovered
      | Inr response \<Rightarrow>
          if ok response then
            (case json_body P response of
               Inl e \<Rightarrow> Continue discovered
             | Inr doc \<Rightarrow> read_doc P path doc discovered)
          else Continue discovered)"

text \<open>The first loop: the result if a round returned one, \<^verbatim>\<open>discovered\<close> otherwise, and the
  requests sent.\<close>

fun probe_docs ::
  "platform \<Rightarrow> api_config \<Rightarrow> jsstring list \<Rightarrow> jsstring \<Rightarrow> (result + jsstring) \<times> request list" where
  "probe_docs P apiConfig [] discovered = (Inr discovered, [])"
| "probe_docs P apiConfig (path # rest) discovered =
     (case probe_doc P apiConfig path discovered of
        Return r \<Rightarrow> (Inl r, [doc_request apiConfig path])
      | Continue d \<Rightarrow>
          (case probe_docs P apiConfig rest d of
             (out, sent) \<Rightarrow> (out, doc_request apiConfig path # sent)))"

definition responds_line :: "jsstring \<Rightarrow> nat \<Rightarrow> jsstring" where
  "responds_line endpoint status =
     glyph_check @ str '' '' @ endpoint @ str '' ('' @ string_of_nat status @ str '')\<newline>''"

text \<open>The second loop.\<close>

fun probe_endpoints ::
  "platform \<Rightarrow> api_config \<Rightarrow> jsstring list \<Rightarrow> jsstring \<Rightarrow> jsstring \<times> request list" where
  "probe_endpoints P apiConfig [] discovered = (discovered, [])"
| "probe_endpoints P apiConfig (endpoint # rest) discovered =
     (let d = (case fetch P (head_request apiConfig endpoint) of
                 Inl e \<Rightarrow> discovered
               | Inr response \<Rightarrow>
                   if ok response
                   then discovered @ responds_line endpoint (resp_status response)
                   else discovered)
      in case probe_endpoints P apiConfig rest d of
           (d', sent) \<Rightarrow> (d', head_request apiConfig endpoint # sent))"

definition trying_line :: "jsstring option \<Rightarrow> jsstring" where
  \<open>trying_line api =
     glyph_magnifier @ str '' Trying to discover endpoints for API "'' @ display api
     @ str ''"...\<newline>\<newline>''\<close>

definition not_found_lines :: jsstring where
  "not_found_lines =
     glyph_cross @ str '' OpenAPI documentation not found.\<newline>\<newline>''
     @ glyph_magnifier @ str '' Testing common endpoints...\<newline>\<newline>''"

definition tip_line :: jsstring where
  "tip_line =
     str ''\<newline>'' @ glyph_bulb @ str '' Tip: Check the API documentation for specific endpoints.''"

definition not_found_discover :: "jsstring option \<Rightarrow> jsstring" where
  \<open>not_found_discover api = str ''API "'' @ display api @ str ''" not found.''\<close>

definition discoverApi ::
  "platform \<Rightarrow> server \<Rightarrow> args option \<Rightarrow> (error + result) \<times> request list" where
  "discoverApi P this args =
     (case args of
        None \<Rightarrow>
          (Inl (TypeError (str ''Cannot destructure property 'api' of 'args' as it is undefined.'')),
           [])
      | Some a \<Rightarrow>
          if \<not> has this (arg_api a) then (Inl (Error (not_found_discover (arg_api a))), [])
          else
            (case get this (arg_api a) of
               None \<Rightarrow>
                 (Inl (TypeError (str ''Cannot read properties of undefined (reading 'baseUrl')'')),
                  [])
             | Some apiConfig \<Rightarrow>
                 (case probe_docs P apiConfig commonPaths (trying_line (arg_api a)) of
                    (Inl r, sent) \<Rightarrow> (Inr r, sent)
                  | (Inr discovered, sent) \<Rightarrow>
                      (case probe_endpoints P apiConfig commonEndpoints
                              (discovered @ not_found_lines) of
                         (d, sent') \<Rightarrow> (Inr (text_result (d @ tip_line)), sent @ sent')))))"

section \<open>The handler of tool calls\<close>

text \<open>
  The \<^verbatim>\<open>switch\<close> on the tool name: the outcome of the tool, the server afterwards and the
  requests sent. Only \<^verbatim>\<open>addApi\<close> is given a server to return.
\<close>

definition call_tool ::
  "platform \<Rightarrow> server \<Rightarrow> jsstring \<Rightarrow> args option \<Rightarrow> (error + result) \<times> server \<times> request list" where
  "call_tool P this name args =
     (if name = str ''add_api'' then
        (case addApi this args of (out, this') \<Rightarrow> (out, this', []))
      else if name = str ''list_apis'' then (Inr (listApis this), this, [])
      else if name = str ''call_api'' then
        (case callApi P this args of (out, sent) \<Rightarrow> (out, this, sent))
      else if name = str ''discover_api'' then
        (case discoverApi P this args of (out, sent) \<Rightarrow> (out, this, sent))
      else (Inl (Error (str ''Unknown tool: '' @ name)), this, []))"

text \<open>
  The handler wraps the \<^verbatim>\<open>switch\<close> in \<^verbatim>\<open>try\<close>/\<^verbatim>\<open>catch\<close>. Its outcome is that of the promise
  it returns to the protocol layer: \<open>Inl\<close> would be a rejection.
\<close>

definition error_result :: "error \<Rightarrow> result" where
  "error_result e = \<lparr>content = [Text (str ''Error: '' @ message e)], isError = True\<rparr>"

definition handler ::
  "platform \<Rightarrow> server \<Rightarrow> jsstring \<Rightarrow> args option \<Rightarrow> (error + result) \<times> server \<times> request list" where
  "handler P this name args =
     (case call_tool P this name args of
        (Inl e, this', sent) \<Rightarrow> (Inr (error_result e), this', sent)
      | (Inr r, this', sent) \<Rightarrow> (Inr r, this', sent))"

text \<open>The arguments object with no property, for building examples.\<close>

definition no_args :: args where
  "no_args =
     \<lparr>arg_name = None, arg_baseUrl = None, arg_headers = None, arg_api = None,
      arg_endpoint = None, arg_method = None, arg_body = None, arg_params = None\<rparr>"

section \<open>Notions used to state the properties\<close>

text \<open>A string with every trailing \<^verbatim>\<open>/\<close> removed, as the documentation of \<^verbatim>\<open>add_api\<close>
  words it: the longest run of slashes at the end is dropped.\<close>

definition without_trailing_slashes :: "jsstring \<Rightarrow> jsstring" where
  "without_trailing_slashes s = rev (dropWhile (\<lambda>c. c = of_char (CHR ''/'')) (rev s))"





text \<open>
  The request of \<^verbatim>\<open>call_api\<close> as its description has it: the URL is the base URL of the
  entry, a slash if the endpoint does not begin with one, the endpoint as given, and the
  query string if \<^verbatim>\<open>params\<close> is there; the method is \<^verbatim>\<open>GET\<close> unless one is given; the
  headers are those of the entry; there is a body, the JSON text of \<^verbatim>\<open>body\<close>, only for
  \<^verbatim>\<open>POST\<close>, \<^verbatim>\<open>PUT\<close> and \<^verbatim>\<open>PATCH\<close>.
\<close>

definition call_request :: "platform \<Rightarrow> api_config \<Rightarrow> args \<Rightarrow> jsstring \<Rightarrow> request" where
  "call_request P apiConfig a endpoint =
     \<lparr>req_url =
        cfg_baseUrl apiConfig
        @ (if take 1 endpoint = str ''/'' then [] else str ''/'') @ endpoint
        @ (case arg_params a of None \<Rightarrow> [] | Some ps \<Rightarrow> str ''?'' @ URLSearchParams_toString P ps),
      req_method = Some (case arg_method a of None \<Rightarrow> str ''GET'' | Some m \<Rightarrow> m),
      req_headers = cfg_headers apiConfig,
      req_body =
        (case arg_body a of
           None \<Rightarrow> None
         | Some b \<Rightarrow>
             if truthy b \<and>
                (case arg_method a of
                   None \<Rightarrow> False
                 | Some m \<Rightarrow> m = str ''POST'' \<or> m = str ''PUT'' \<or> m = str ''PATCH'')
             then Some (JSON_stringify P 0 b) else None)\<rparr>"

section \<open>Examples\<close>

text \<open>
  Arguments, servers and platforms at which the properties below are evaluated. The
  server \<open>server_x\<close> is the one after \<^verbatim>\<open>add("x", "https://h.test///")\<close>; \<open>config_x\<close> is the
  entry it holds. The functions of an example platform are given on the arguments that
  occur in the example.
\<close>

definition add_x :: args where
  "add_x = no_args\<lparr>arg_name := Some (str ''x''), arg_baseUrl := Some (str ''https://h.test///'')\<rparr>"

definition server_x :: server where
  "server_x = snd (addApi constructor (Some add_x))"

definition config_x :: api_config where
  "config_x = \<lparr>cfg_baseUrl = str ''https://h.test'',
                cfg_headers = [(str ''Content-Type'', str ''application/json'')]\<rparr>"

definition add_auth :: args where
  "add_auth =
     no_args\<lparr>arg_name := Some (str ''x''), arg_baseUrl := Some (str ''https://h.test''),
             arg_headers := Some [(str ''Authorization'', str ''Bearer t''),
                                  (str ''Content-Type'', str ''text/xml'')]\<rparr>"

definition add_x_again :: args where
  "add_x_again =
     no_args\<lparr>arg_name := Some (str ''x''), arg_baseUrl := Some (str ''https://other.test/v2/'')\<rparr>"

definition add_numbered :: args where
  "add_numbered =
     no_args\<lparr>arg_name := Some (str ''x''), arg_baseUrl := Some (str ''https://h.test''),
             arg_headers := Some [(str ''X-Key'', str ''k''), (str ''2'', str ''two'')]\<rparr>"

definition call_missing :: args where
  "call_missing = no_args\<lparr>arg_api := Some (str ''missing''), arg_endpoint := Some (str ''/e'')\<rparr>"

definition call_users :: args where
  "call_users = no_args\<lparr>arg_api := Some (str ''x''), arg_endpoint := Some (str ''users'')\<rparr>"

definition discover_x :: args where
  "discover_x = no_args\<lparr>arg_api := Some (str ''x'')\<rparr>"

text \<open>A network on which every request fails.\<close>

definition offline :: platform where
  "offline =
     \<lparr>fetch = (\<lambda>req. Inl (FetchError (str ''request failed''))),
      JSON_parse = (\<lambda>t. None),
      JSON_stringify = (\<lambda>indent v. []),
      URLSearchParams_toString = (\<lambda>ps. []),
      toUpperCase = (\<lambda>s. s)\<rparr>"

text \<open>A site that answers every request with the body \<^verbatim>\<open>not json\<close>. Its \<^verbatim>\<open>JSON.stringify\<close>
  is given on the result object of that answer, printed with an indentation of two.\<close>

definition plain_response :: response where
  "plain_response =
     \<lparr>resp_status = 200, resp_statusText = str ''OK'',
      resp_headers = [(str ''content-type'', str ''text/plain'')],
      resp_text = Inr (str ''not json'')\<rparr>"

definition plain_result_text :: jsstring where
  \<open>plain_result_text =
     str ''{\<newline>  "status": 200,\<newline>  "statusText": "OK",\<newline>  "headers": {\<newline>''
     @ str ''    "content-type": "text/plain"\<newline>  },\<newline>  "data": "not json"\<newline>}''\<close>

definition plain_text_site :: platform where
  "plain_text_site =
     \<lparr>fetch = (\<lambda>req. Inr plain_response),
      JSON_parse = (\<lambda>t. None),
      JSON_stringify = (\<lambda>indent v.
        if indent = 2 \<and>
           v = JObj [(str ''status'', JNum 200),
                     (str ''statusText'', JStr (str ''OK'')),
                     (str ''headers'', JObj [(str ''content-type'', JStr (str ''text/plain''))]),
                     (str ''data'', JStr (str ''not json''))]
        then plain_result_text else []),
      URLSearchParams_toString = (\<lambda>ps. []),
      toUpperCase = (\<lambda>s. s)\<rparr>"












text \<open>A site whose \<^verbatim>\<open>/swagger.json\<close> answers 200 with the body \<^verbatim>\<open>{"paths":{"/a":null}}\<close>.\<close>

definition null_item_response :: response where
  \<open>null_item_response =
     \<lparr>resp_status = 200, resp_statusText = str ''OK'', resp_headers = [],
      resp_text = Inr (str ''{"paths":{"/a":null}}'')\<rparr>\<close>

definition null_item_site :: platform where
  \<open>null_item_site =
     \<lparr>fetch = (\<lambda>req.
        if req_url req = str ''https://h.test/swagger.json'' then Inr null_item_response
        else Inl (FetchError (str ''request failed''))),
      JSON_parse = (\<lambda>t.
        if t = str ''{"paths":{"/a":null}}''
        then Some (JObj [(str ''paths'', JObj [(str ''/a'', JNull)])])
        else None),
      JSON_stringify = (\<lambda>indent v. []),
      URLSearchParams_toString = (\<lambda>ps. []),
      toUpperCase = (\<lambda>s. s)\<rparr>\<close>

section \<open>Properties of the registry\<close>

lemma replace_trailing_slashes_eq:
  "replace_trailing_slashes s = rev (dropWhile (\<lambda>c. c = slash) (rev s))"
proof (induction s)
  case Nil
  show ?case by simp
next
  case (Cons c cs)
  show ?case
  proof (cases "c = slash \<and> list_all (\<lambda>x. x = slash) cs")
    case True
    then have "\<forall>x\<in>set (rev (c # cs)). x = slash"
      by (simp add: list_all_iff)
    then have "dropWhile (\<lambda>c. c = slash) (rev (c # cs)) = []"
      by (simp only: dropWhile_eq_Nil_conv)
    with True show ?thesis by simp
  next
    case False
    then have "\<exists>x\<in>set (c # cs). x \<noteq> slash"
      by (auto simp: list_all_iff)
    then show ?thesis
      using False Cons.IH
      by (auto simp: dropWhile_append list_all_iff)
  qed
qed

lemma map_of_insert_index:
  "k \<notin> fst ` set obj \<Longrightarrow> map_of (insert_index n (k, v) obj) = (map_of obj)(k \<mapsto> v)"
proof (induction obj)
  case Nil
  show ?case by simp
next
  case (Cons q obj)
  then have k: "k \<noteq> fst q" and rest: "k \<notin> fst ` set obj"
    by auto
  show ?case
    using k Cons.IH [OF rest]
    by (cases q) (auto split: option.splits simp: fun_upd_twist)
qed

lemma map_of_put_property:
  "map_of (put_property obj k v) = (map_of obj)(k \<mapsto> v)"
proof (cases "k \<in> fst ` set obj")
  case True
  then show ?thesis by (simp add: put_property_def update_conv')
next
  case False
  then have "map_of obj k = None"
    by (simp add: map_of_eq_None_iff)
  then have "map_of (obj @ [(k, v)]) = (map_of obj)(k \<mapsto> v)"
    by (auto simp: map_add_def fun_eq_iff split: option.splits)
  with False show ?thesis
    by (simp add: put_property_def map_of_insert_index split: option.splits)
qed

lemma map_of_spread:
  "distinct (map fst obj) \<Longrightarrow> map_of (spread base obj) = map_of base ++ map_of obj"
proof (induction obj arbitrary: base)
  case Nil
  show ?case by (simp add: spread_def)
next
  case (Cons p obj)
  obtain k v where p: "p = (k, v)" by (cases p)
  from Cons.prems p have k: "k \<notin> dom (map_of obj)" and d: "distinct (map fst obj)"
    by (auto simp: dom_map_of_conv_image_fst)
  have "map_of (spread base (p # obj)) = map_of (spread (put_property base k v) obj)"
    by (simp add: spread_def p)
  also have "\<dots> = (map_of base)(k \<mapsto> v) ++ map_of obj"
    by (simp only: Cons.IH [OF d] map_of_put_property)
  also have "\<dots> = map_of base ++ map_of (p # obj)"
    using k by (simp add: p map_add_upd_left)
  finally show ?case .
qed

lemma get_set_api: "get (set_api this k v) k = Some v"
  by (simp add: get_def set_api_def update_conv')

lemma spread_nil: "spread base [] = base"
  by (simp add: spread_def)

lemma filter_update_key:
  "distinct (map fst al) \<Longrightarrow> filter (\<lambda>e. fst e = k) (AList.update k v al) = [(k, v)]"
proof (induction al)
  case Nil
  show ?case by simp
next
  case (Cons p al)
  show ?case
  proof (cases "fst p = k")
    case True
    with Cons.prems have "k \<notin> fst ` set al" by simp
    then have "\<forall>e\<in>set al. fst e \<noteq> k" by (auto simp: image_iff)
    then have "filter (\<lambda>e. fst e = k) al = []" by (simp add: filter_empty_conv)
    with True show ?thesis by (cases p) simp
  next
    case False
    with Cons show ?thesis by (cases p) simp
  qed
qed

lemma has_get: "has this k \<longleftrightarrow> get this k \<noteq> None"
  by (simp add: has_def get_def map_of_eq_None_iff)

lemma server_x_eq: "server_x = \<lparr>apis = [(Some (str ''x''), config_x)]\<rparr>"
  by (simp add: server_x_def add_x_def addApi_def no_args_def constructor_def set_api_def
        new_entry_def spread_def default_headers_def config_x_def str_def slash_def)

lemma get_server_x: "get server_x (Some (str ''x'')) = Some config_x"
  by (simp add: server_x_eq get_def)

text \<open>
  Claim C7. For every \<^verbatim>\<open>add(name, baseUrl, headers?)\<close> with a string \<^verbatim>\<open>baseUrl\<close> the
  operation succeeds, and the stored \<^verbatim>\<open>baseUrl\<close> is the given one with every trailing
  \<^verbatim>\<open>/\<close> removed and nothing else changed: the given URL is the stored one followed by
  slashes only, and the stored one does not end in a slash.
\<close>

theorem addApi_strips_trailing_slashes:
  assumes "arg_baseUrl a = Some b"
  shows "fst (addApi this (Some a)) =
           Inr (text_result (added_text (arg_name a) (without_trailing_slashes b)))
       \<and> map_option cfg_baseUrl (get (snd (addApi this (Some a))) (arg_name a)) =
           Some (without_trailing_slashes b)
       \<and> b = without_trailing_slashes b
             @ replicate (length b - length (without_trailing_slashes b)) (of_char (CHR ''/''))
       \<and> (without_trailing_slashes b \<noteq> [] \<longrightarrow>
            last (without_trailing_slashes b) \<noteq> of_char (CHR ''/''))"
proof -
  let ?s = "of_char (CHR ''/'') :: nat"
  let ?t = "takeWhile (\<lambda>c. c = ?s) (rev b)"
  have "rev b = ?t @ dropWhile (\<lambda>c. c = ?s) (rev b)"
    by simp
  then have split: "b = without_trailing_slashes b @ rev ?t"
    unfolding without_trailing_slashes_def by (metis rev_append rev_rev_ident)
  then have "length b = length (without_trailing_slashes b) + length ?t"
    by (metis length_append length_rev)
  then have len: "length b - length (without_trailing_slashes b) = length ?t"
    by simp
  have "rev ?t = replicate (length ?t) ?s"
    by (rule replicate_eqI) (auto dest: set_takeWhileD)
  with split len have run: "b = without_trailing_slashes b
             @ replicate (length b - length (without_trailing_slashes b)) ?s"
    by simp
  have end_: "without_trailing_slashes b \<noteq> [] \<longrightarrow> last (without_trailing_slashes b) \<noteq> ?s"
    unfolding without_trailing_slashes_def
    using hd_dropWhile [of "\<lambda>c. c = ?s" "rev b"] by (simp add: last_rev)
  have stored: "replace_trailing_slashes b = without_trailing_slashes b"
    by (simp add: replace_trailing_slashes_eq without_trailing_slashes_def slash_def)
  have "fst (addApi this (Some a)) =
           Inr (text_result (added_text (arg_name a) (without_trailing_slashes b)))
       \<and> map_option cfg_baseUrl (get (snd (addApi this (Some a))) (arg_name a)) =
           Some (without_trailing_slashes b)"
    using assms by (simp add: addApi_def get_set_api new_entry_def stored)
  with run end_ show ?thesis by blast
qed

theorem addApi_strips_trailing_slashes_witness:
  \<open>arg_baseUrl add_x = Some (str ''https://h.test///'')
   \<and> without_trailing_slashes (str ''https://h.test///'') = str ''https://h.test''
   \<and> map_option cfg_baseUrl (get (snd (addApi constructor (Some add_x))) (Some (str ''x'')))
       = Some (str ''https://h.test'')
   \<and> fst (addApi constructor (Some add_x)) =
       Inr \<lparr>content =
              [Text ([0x2705] @ str '' API "x" added successfully!\<newline>URL: https://h.test''
                     @ str ''\<newline>\<newline>You can now use:\<newline>- call_api to make calls''
                     @ str ''\<newline>- discover_api to discover endpoints'')],
            isError = False\<rparr>\<close>
proof -
  have b: "arg_baseUrl add_x = Some (str ''https://h.test///'')"
    and n: "arg_name add_x = Some (str ''x'')"
    by (simp_all add: add_x_def no_args_def)
  have w: "without_trailing_slashes (str ''https://h.test///'') = str ''https://h.test''"
    by (simp add: without_trailing_slashes_def str_def)
  from addApi_strips_trailing_slashes [OF b, of constructor] b w show ?thesis
    by (simp add: n) (simp add: text_result_def added_text_def glyph_check_def str_def)
qed

text \<open>
  Claim C3. For every \<^verbatim>\<open>add(name, baseUrl, headers)\<close>, the headers of the stored entry,
  read as a map, are the default \<^verbatim>\<open>Content-Type: application/json\<close> overridden key by key
  by the headers of the caller (an object: its keys are distinct); with no \<^verbatim>\<open>headers\<close>
  argument the stored headers are exactly the default one.
\<close>

theorem addApi_merges_headers:
  assumes "arg_baseUrl a = Some b"
    and "distinct (map fst (case arg_headers a of None \<Rightarrow> [] | Some h \<Rightarrow> h))"
  shows "map_option (\<lambda>c. map_of (cfg_headers c)) (get (snd (addApi this (Some a))) (arg_name a)) =
           Some (map_of [(str ''Content-Type'', str ''application/json'')]
                 ++ map_of (case arg_headers a of None \<Rightarrow> [] | Some h \<Rightarrow> h))
       \<and> (arg_headers a = None \<longrightarrow>
            map_option cfg_headers (get (snd (addApi this (Some a))) (arg_name a)) =
              Some [(str ''Content-Type'', str ''application/json'')])"
  using assms
  by (simp add: addApi_def get_set_api new_entry_def map_of_spread spread_nil default_headers_def)

theorem addApi_merges_headers_witness:
  "map_option (\<lambda>c. map_of (cfg_headers c))
      (get (snd (addApi constructor (Some add_auth))) (Some (str ''x'')))
     = Some [str ''Content-Type'' \<mapsto> str ''text/xml'', str ''Authorization'' \<mapsto> str ''Bearer t'']
   \<and> map_option cfg_headers (get (snd (addApi constructor (Some add_x))) (Some (str ''x'')))
     = Some [(str ''Content-Type'', str ''application/json'')]"
proof -
  have "map_option (\<lambda>c. map_of (cfg_headers c))
      (get (snd (addApi constructor (Some add_auth))) (Some (str ''x'')))
     = Some [str ''Content-Type'' \<mapsto> str ''text/xml'', str ''Authorization'' \<mapsto> str ''Bearer t'']"
    using addApi_merges_headers [of add_auth "str ''https://h.test''" constructor]
    by (simp add: add_auth_def no_args_def fun_upd_twist str_def)
  moreover have "map_option cfg_headers (get (snd (addApi constructor (Some add_x))) (Some (str ''x'')))
     = Some [(str ''Content-Type'', str ''application/json'')]"
    using addApi_merges_headers [of add_x "str ''https://h.test///''" constructor]
    by (simp add: add_x_def no_args_def)
  ultimately show ?thesis by simp
qed

text \<open>
  A header whose name is an array index is enumerated before \<^verbatim>\<open>Content-Type\<close>; the stored
  headers are the same map.
\<close>

lemma addApi_numbered_header:
  "map_option cfg_headers (get (snd (addApi constructor (Some add_numbered))) (Some (str ''x'')))
     = Some [(str ''2'', str ''two''), (str ''Content-Type'', str ''application/json''),
             (str ''X-Key'', str ''k'')]"
  by (simp add: add_numbered_def no_args_def addApi_def get_set_api new_entry_def spread_def
        default_headers_def put_property_def array_index_def is_digit_def digits_value_def
        str_def)

text \<open>
  Claim C4. The keys of the registry are unique (adding keeps them distinct), and after
  two \<^verbatim>\<open>add_api\<close> calls with the same name the registry is the one that the second call
  alone would have produced: its entry under that name is built from the arguments of
  the second call only.
\<close>

theorem addApi_last_write_wins:
  assumes "arg_baseUrl a1 = Some b1" and "arg_baseUrl a2 = Some b2"
    and "arg_name a2 = arg_name a1"
  shows "snd (addApi (snd (addApi this (Some a1))) (Some a2)) = snd (addApi this (Some a2))
       \<and> get (snd (addApi (snd (addApi this (Some a1))) (Some a2))) (arg_name a1) =
           Some (new_entry b2 (arg_headers a2))
       \<and> (distinct (map fst (apis this)) \<longrightarrow>
            distinct (map fst (apis (snd (addApi (snd (addApi this (Some a1))) (Some a2)))))
          \<and> filter (\<lambda>e. fst e = arg_name a1) (apis (snd (addApi (snd (addApi this (Some a1))) (Some a2))))
              = [(arg_name a1, new_entry b2 (arg_headers a2))])"
proof -
  let ?e1 = "new_entry b1 (arg_headers a1)" and ?e2 = "new_entry b2 (arg_headers a2)"
  have two: "snd (addApi (snd (addApi this (Some a1))) (Some a2)) =
      this\<lparr>apis := AList.update (arg_name a1) ?e2 (apis this)\<rparr>"
    using assms by (simp add: addApi_def set_api_def)
  have one: "snd (addApi this (Some a2)) = this\<lparr>apis := AList.update (arg_name a1) ?e2 (apis this)\<rparr>"
    using assms by (simp add: addApi_def set_api_def)
  show ?thesis
    unfolding two one
    by (simp add: get_def update_conv' distinct_update filter_update_key)
qed

theorem addApi_last_write_wins_witness:
  "distinct (map fst (apis constructor))
   \<and> get (snd (addApi (snd (addApi constructor (Some add_auth))) (Some add_x_again))) (Some (str ''x''))
     = Some \<lparr>cfg_baseUrl = str ''https://other.test/v2'',
             cfg_headers = [(str ''Content-Type'', str ''application/json'')]\<rparr>
   \<and> filter (\<lambda>e. fst e = Some (str ''x''))
        (apis (snd (addApi (snd (addApi constructor (Some add_auth))) (Some add_x_again))))
     = [(Some (str ''x''), \<lparr>cfg_baseUrl = str ''https://other.test/v2'',
                      cfg_headers = [(str ''Content-Type'', str ''application/json'')]\<rparr>)]"
proof -
  have b1: "arg_baseUrl add_auth = Some (str ''https://h.test'')"
    and b2: "arg_baseUrl add_x_again = Some (str ''https://other.test/v2/'')"
    and n: "arg_name add_x_again = arg_name add_auth"
    and n1: "arg_name add_auth = Some (str ''x'')"
    and h2: "arg_headers add_x_again = None"
    by (simp_all add: add_auth_def add_x_again_def no_args_def)
  have d: "distinct (map fst (apis constructor))"
    by (simp add: constructor_def)
  have e: "new_entry (str ''https://other.test/v2/'') None
      = \<lparr>cfg_baseUrl = str ''https://other.test/v2'',
         cfg_headers = [(str ''Content-Type'', str ''application/json'')]\<rparr>"
    by (simp add: new_entry_def spread_def default_headers_def str_def slash_def)
  from addApi_last_write_wins [OF b1 b2 n, of constructor, THEN conjunct2] d show ?thesis
    by (simp add: n1 h2 e)
qed

section \<open>Properties of call_api\<close>

text \<open>
  Claim C2. For every \<^verbatim>\<open>call_api\<close> whose \<^verbatim>\<open>api\<close> argument is not a key of the registry,
  the call throws an error whose message says that the API was not found and names
  \<^verbatim>\<open>list_apis\<close>, the handler turns it into an error result, and no request is handed to
  \<^verbatim>\<open>fetch\<close>.
\<close>

theorem callApi_not_found:
  assumes "\<not> has this (arg_api a)"
  shows \<open>callApi P this (Some a) =
           (Inl (Error (str ''API "'' @ display (arg_api a)
                        @ str ''" not found. Use list_apis to see available APIs.'')), [])
       \<and> handler P this (str ''call_api'') (Some a) =
           (Inr \<lparr>content = [Text (str ''Error: API "'' @ display (arg_api a)
                                   @ str ''" not found. Use list_apis to see available APIs.'')],
                 isError = True\<rparr>, this, [])\<close>
  using assms
  by (simp add: callApi_def handler_def call_tool_def not_found_call_def error_result_def str_def)

theorem callApi_not_found_witness:
  \<open>\<not> has server_x (arg_api call_missing)
   \<and> callApi offline server_x (Some call_missing) =
       (Inl (Error (str ''API "missing" not found. Use list_apis to see available APIs.'')), [])
   \<and> handler offline server_x (str ''call_api'') (Some call_missing) =
       (Inr \<lparr>content =
               [Text (str ''Error: API "missing" not found. Use list_apis to see available APIs.'')],
             isError = True\<rparr>, server_x, [])
   \<and> callApi offline server_x (Some no_args) =
       (Inl (Error (str ''API "undefined" not found. Use list_apis to see available APIs.'')), [])\<close>
proof -
  have h: "\<not> has server_x (arg_api call_missing)"
    by (simp add: has_def server_x_eq call_missing_def no_args_def str_def)
  have a: "arg_api call_missing = Some (str ''missing'')"
    by (simp add: call_missing_def no_args_def)
  have h': "\<not> has server_x (arg_api no_args)"
    by (simp add: has_def server_x_eq no_args_def)
  have a': "arg_api no_args = None"
    by (simp add: no_args_def)
  from callApi_not_found [OF h, of offline]
       callApi_not_found [OF h', of offline, THEN conjunct1] h
  show ?thesis
    by (simp add: a a' str_def)
qed

lemma callApi_request:
  assumes "get this (arg_api a) = Some apiConfig" and "arg_endpoint a = Some endpoint"
  shows "fetchOptions P apiConfig (build_url P apiConfig endpoint (arg_params a)) a
           = call_request P apiConfig a endpoint"
    and "snd (callApi P this (Some a)) = [call_request P apiConfig a endpoint]"
proof -
  have s: "startsWith endpoint (str ''/'') \<longleftrightarrow> take 1 endpoint = str ''/''"
    by (simp add: startsWith_def str_def)
  have g: "str ''GET'' \<notin> {str ''POST'', str ''PUT'', str ''PATCH''}"
    by (simp add: str_def)
  show r: "fetchOptions P apiConfig (build_url P apiConfig endpoint (arg_params a)) a
           = call_request P apiConfig a endpoint"
    using g
    by (auto simp: fetchOptions_def build_url_def call_request_def s Let_def
             split: option.splits)
  show "snd (callApi P this (Some a)) = [call_request P apiConfig a endpoint]"
    using assms
    by (simp add: callApi_def has_get Let_def r split: sum.splits)
qed

text \<open>
  Claim C6. For every \<^verbatim>\<open>call_api\<close> on a registered API whose request resolves and whose
  body is read as the text \<open>responseText\<close>, the call succeeds, with no error flag; the
  answer is the heading followed by what \<^verbatim>\<open>JSON.stringify\<close> prints, with an indentation of
  two, for the object of the status, the status text, the headers and \<^verbatim>\<open>data\<close>, where
  \<^verbatim>\<open>data\<close> is the parsed value if \<^verbatim>\<open>JSON.parse\<close> succeeds on the text and the raw text, a
  string, if it throws.
\<close>

theorem callApi_falls_back_to_text:
  assumes "get this (arg_api a) = Some apiConfig"
    and "arg_endpoint a = Some endpoint"
    and "fetch P (call_request P apiConfig a endpoint) = Inr response"
    and "resp_text response = Inr responseText"
  shows \<open>handler P this (str ''call_api'') (Some a) =
           (Inr \<lparr>content =
                   [Text (glyph_globe @ str '' Response from API "'' @ display (arg_api a)
                          @ str ''":\<newline>\<newline>''
                          @ JSON_stringify P 2
                              (JObj [(str ''status'', JNum (real (resp_status response))),
                                     (str ''statusText'', JStr (resp_statusText response)),
                                     (str ''headers'',
                                        JObj (map (\<lambda>(k, v). (k, JStr v))
                                                (fromEntries (resp_headers response)))),
                                     (str ''data'',
                                        case JSON_parse P responseText of
                                          None \<Rightarrow> JStr responseText
                                        | Some v \<Rightarrow> v)]))],
                 isError = False\<rparr>,
            this, [call_request P apiConfig a endpoint])
       \<and> (JSON_parse P responseText = None \<longrightarrow>
            fst (callApi P this (Some a)) =
              Inr \<lparr>content =
                     [Text (glyph_globe @ str '' Response from API "'' @ display (arg_api a)
                            @ str ''":\<newline>\<newline>''
                            @ JSON_stringify P 2
                                (JObj [(str ''status'', JNum (real (resp_status response))),
                                       (str ''statusText'', JStr (resp_statusText response)),
                                       (str ''headers'',
                                          JObj (map (\<lambda>(k, v). (k, JStr v))
                                                  (fromEntries (resp_headers response)))),
                                       (str ''data'', JStr responseText)]))],
                   isError = False\<rparr>)\<close>
proof -
  let ?data = "case JSON_parse P responseText of None \<Rightarrow> JStr responseText | Some v \<Rightarrow> v"
  have c: "callApi P this (Some a) =
      (Inr (text_result (response_text P (arg_api a) (response_result response ?data))),
       [call_request P apiConfig a endpoint])"
    using assms
    by (simp add: callApi_def has_get Let_def callApi_request(1) [OF assms(1,2)]
          split: option.splits)
  then have h: "handler P this (str ''call_api'') (Some a) =
      (Inr (text_result (response_text P (arg_api a) (response_result response ?data))),
       this, [call_request P apiConfig a endpoint])"
    by (simp add: handler_def call_tool_def str_def)
  show ?thesis
    unfolding h c
    by (simp add: text_result_def response_text_def response_result_def)
qed

theorem callApi_falls_back_to_text_witness:
  \<open>get server_x (arg_api call_users) = Some config_x
   \<and> JSON_parse plain_text_site (str ''not json'') = None
   \<and> handler plain_text_site server_x (str ''call_api'') (Some call_users) =
       (Inr \<lparr>content =
               [Text ([0xD83C, 0xDF10] @ str '' Response from API "x":\<newline>\<newline>''
                      @ str ''{\<newline>  "status": 200,\<newline>  "statusText": "OK",\<newline>''
                      @ str ''  "headers": {\<newline>    "content-type": "text/plain"\<newline>  },\<newline>''
                      @ str ''  "data": "not json"\<newline>}'')],
             isError = False\<rparr>,
        server_x,
        [\<lparr>req_url = str ''https://h.test/users'', req_method = Some (str ''GET''),
          req_headers = [(str ''Content-Type'', str ''application/json'')],
          req_body = None\<rparr>])\<close>
proof -
  have g: "get server_x (arg_api call_users) = Some config_x"
    by (simp add: call_users_def no_args_def get_server_x)
  have e: "arg_endpoint call_users = Some (str ''users'')"
    by (simp add: call_users_def no_args_def)
  have f: "fetch plain_text_site (call_request plain_text_site config_x call_users (str ''users''))
           = Inr plain_response"
    by (simp add: plain_text_site_def)
  have t: "resp_text plain_response = Inr (str ''not json'')"
    by (simp add: plain_response_def)
  have p: "JSON_parse plain_text_site (str ''not json'') = None"
    by (simp add: plain_text_site_def)
  have r: "call_request plain_text_site config_x call_users (str ''users'') =
      \<lparr>req_url = str ''https://h.test/users'', req_method = Some (str ''GET''),
       req_headers = [(str ''Content-Type'', str ''application/json'')], req_body = None\<rparr>"
    by (simp add: call_request_def call_users_def no_args_def config_x_def str_def)
  have j: "JSON_stringify plain_text_site 2
      (JObj [(str ''status'', JNum (real (resp_status plain_response))),
             (str ''statusText'', JStr (resp_statusText plain_response)),
             (str ''headers'',
                JObj (map (\<lambda>(k, v). (k, JStr v)) (fromEntries (resp_headers plain_response)))),
             (str ''data'', JStr (str ''not json''))])
       = plain_result_text"
    by (simp add: plain_text_site_def plain_response_def fromEntries_def spread_def
          put_property_def array_index_def is_digit_def str_def)
  have a: "arg_api call_users = Some (str ''x'')"
    by (simp add: call_users_def no_args_def)
  from callApi_falls_back_to_text [OF g e f t, THEN conjunct1] g p show ?thesis
    by (simp add: a r j) (simp add: plain_result_text_def glyph_globe_def str_def)
qed

text \<open>
  Claim C8. For every registered API and every endpoint \<open>e\<close> that does not start with
  \<^verbatim>\<open>/\<close>, \<^verbatim>\<open>call_api\<close> with \<open>e\<close> and \<^verbatim>\<open>call_api\<close> with \<^verbatim>\<open>"/" + e\<close> hand \<^verbatim>\<open>fetch\<close> one request
  each, with the same URL: the base URL, one slash, \<open>e\<close> unchanged, and the query string
  if \<^verbatim>\<open>params\<close> is given; the two calls have the same outcome. An endpoint that starts
  with \<^verbatim>\<open>/\<close> follows the base URL as it is, with no separator added.
\<close>

theorem callApi_prefixes_slash:
  assumes "get this (arg_api a) = Some apiConfig"
    and "take 1 e \<noteq> str ''/''"
  shows "map req_url (snd (callApi P this (Some (a\<lparr>arg_endpoint := Some e\<rparr>)))) =
           [cfg_baseUrl apiConfig @ str ''/'' @ e
            @ (case arg_params a of None \<Rightarrow> [] | Some ps \<Rightarrow> str ''?'' @ URLSearchParams_toString P ps)]
       \<and> map req_url (snd (callApi P this (Some (a\<lparr>arg_endpoint := Some (str ''/'' @ e)\<rparr>)))) =
           [cfg_baseUrl apiConfig @ str ''/'' @ e
            @ (case arg_params a of None \<Rightarrow> [] | Some ps \<Rightarrow> str ''?'' @ URLSearchParams_toString P ps)]
       \<and> callApi P this (Some (a\<lparr>arg_endpoint := Some e\<rparr>)) =
           callApi P this (Some (a\<lparr>arg_endpoint := Some (str ''/'' @ e)\<rparr>))
       \<and> (\<forall>endpoint. take 1 endpoint = str ''/'' \<longrightarrow>
            map req_url (snd (callApi P this (Some (a\<lparr>arg_endpoint := Some endpoint\<rparr>)))) =
              [cfg_baseUrl apiConfig @ endpoint
               @ (case arg_params a of None \<Rightarrow> [] | Some ps \<Rightarrow> str ''?'' @ URLSearchParams_toString P ps)])"
proof -
  let ?q = "case arg_params a of None \<Rightarrow> [] | Some ps \<Rightarrow> str ''?'' @ URLSearchParams_toString P ps"
  have sent: "snd (callApi P this (Some (a\<lparr>arg_endpoint := Some x\<rparr>)))
      = [call_request P apiConfig (a\<lparr>arg_endpoint := Some x\<rparr>) x]" for x
    using assms(1) by (intro callApi_request(2)) simp_all
  have url: "req_url (call_request P apiConfig (a\<lparr>arg_endpoint := Some x\<rparr>) x)
      = cfg_baseUrl apiConfig @ (if take 1 x = str ''/'' then [] else str ''/'') @ x @ ?q" for x
    by (simp add: call_request_def)
  have u: "build_url P c e ps = build_url P c (str ''/'' @ e) ps" for c ps
    using assms(2) by (simp add: build_url_def startsWith_def str_def)
  have f: "fetchOptions P c w (a\<lparr>arg_endpoint := x\<rparr>) = fetchOptions P c w (a\<lparr>arg_endpoint := y\<rparr>)"
    for c w x y
    by (simp add: fetchOptions_def Let_def cong: if_cong)
  have eq: "callApi P this (Some (a\<lparr>arg_endpoint := Some e\<rparr>)) =
           callApi P this (Some (a\<lparr>arg_endpoint := Some (str ''/'' @ e)\<rparr>))"
    unfolding callApi_def
    by (simp add: u f [of _ _ "Some e" "Some (str ''/'' @ e)"] Let_def
          split: option.splits sum.splits)
  have 1: "map req_url (snd (callApi P this (Some (a\<lparr>arg_endpoint := Some e\<rparr>)))) =
      [cfg_baseUrl apiConfig @ str ''/'' @ e @ ?q]"
    using assms(2) by (simp add: sent url)
  have 2: "map req_url (snd (callApi P this (Some (a\<lparr>arg_endpoint := Some (str ''/'' @ e)\<rparr>)))) =
      [cfg_baseUrl apiConfig @ str ''/'' @ e @ ?q]"
    using 1 eq by simp
  have 3: "\<forall>endpoint. take 1 endpoint = str ''/'' \<longrightarrow>
      map req_url (snd (callApi P this (Some (a\<lparr>arg_endpoint := Some endpoint\<rparr>)))) =
        [cfg_baseUrl apiConfig @ endpoint @ ?q]"
    by (simp add: sent url)
  from 1 2 eq 3 show ?thesis by blast
qed

theorem callApi_prefixes_slash_witness:
  "get server_x (arg_api call_users) = Some config_x
   \<and> take 1 (str ''users'') \<noteq> str ''/''
   \<and> map req_url (snd (callApi offline server_x (Some (call_users\<lparr>arg_endpoint := Some (str ''users'')\<rparr>))))
       = [str ''https://h.test/users'']
   \<and> map req_url (snd (callApi offline server_x (Some (call_users\<lparr>arg_endpoint := Some (str ''/users'')\<rparr>))))
       = [str ''https://h.test/users'']
   \<and> map req_url (snd (callApi offline server_x (Some (call_users\<lparr>arg_endpoint := Some (str ''/users/'')\<rparr>))))
       = [str ''https://h.test/users/'']"
proof -
  have g: "get server_x (arg_api call_users) = Some config_x"
    by (simp add: call_users_def no_args_def get_server_x)
  have h: "take 1 (str ''users'') \<noteq> str ''/''"
    by (simp add: str_def)
  have s: "take 1 (str ''/users/'') = str ''/''"
    by (simp add: str_def)
  have p: "arg_params call_users = None"
    by (simp add: call_users_def no_args_def)
  have c: "str ''/'' @ str ''users'' = str ''/users''"
    "cfg_baseUrl config_x @ str ''/users'' = str ''https://h.test/users''"
    "cfg_baseUrl config_x @ str ''/users/'' = str ''https://h.test/users/''"
    by (simp_all add: config_x_def str_def)
  note t = callApi_prefixes_slash [OF g h, of offline]
  from t [THEN conjunct1] t [THEN conjunct2, THEN conjunct1]
       t [THEN conjunct2, THEN conjunct2, THEN conjunct2, rule_format, OF s] g h
  show ?thesis
    by (simp add: p c)
qed

section \<open>Properties of discover_api\<close>





text \<open>The keys of a string and of an array are the numerals of their indices.\<close>

lemma Object_keys_indices:
  "Object_keys (Some (JStr (str ''ab''))) = Inr [str ''0'', str ''1'']"
  "Object_keys (Some (JArr [JNull, JBool True, JNull])) = Inr [str ''0'', str ''1'', str ''2'']"
  "map_of (own_properties (JStr (str ''ab''))) (str ''1'') = Some (JStr (str ''b''))"
  "string_of_nat 1305 = str ''1305''"
  by (simp_all add: Object_keys_def string_of_nat.simps digit_def str_def upt_rec)




text \<open>
  The amended claim sets one more case aside. Where a value listed under \<^verbatim>\<open>paths\<close> is
  \<^verbatim>\<open>null\<close>, \<^verbatim>\<open>Object.keys\<close> throws inside the \<^verbatim>\<open>try\<close> after the lines announcing the
  documentation have been appended; the \<^verbatim>\<open>catch\<close> swallows the error and the loop goes on,
  so the answer announces documentation and its absence at once.
\<close>

lemma discoverApi_null_path_item:
  "discoverApi null_item_site server_x (Some discover_x) =
     (Inr (text_result (trying_line (Some (str ''x'')) @ found_line (str ''/swagger.json'')
                        @ available_line @ not_found_lines @ tip_line)),
      map (doc_request config_x) commonPaths @ map (head_request config_x) commonEndpoints)"
proof -
  have a: "arg_api discover_x = Some (str ''x'')"
    by (simp add: discover_x_def no_args_def)
  have r: "read_doc null_item_site (str ''/swagger.json'')
             (JObj [(str ''paths'', JObj [(str ''/a'', JNull)])]) d
             = Continue (d @ found_line (str ''/swagger.json'') @ available_line)" for d
    by (simp add: read_doc_def get_property_def Object_keys_def str_def)
  have p1: "probe_doc null_item_site config_x (str ''/swagger.json'') d
              = Continue (d @ found_line (str ''/swagger.json'') @ available_line)" for d
    using r [of d]
    by (simp add: probe_doc_def doc_request_def null_item_site_def config_x_def ok_def
          null_item_response_def json_body_def str_def)
  have p2: "q \<noteq> str ''/swagger.json'' \<Longrightarrow> probe_doc null_item_site config_x q d = Continue d"
    for q d
    by (simp add: probe_doc_def doc_request_def null_item_site_def config_x_def str_def)
  have d: "probe_docs null_item_site config_x commonPaths d =
       (Inr (d @ found_line (str ''/swagger.json'') @ available_line),
        map (doc_request config_x) commonPaths)" for d
    by (simp add: commonPaths_def p1 p2) (simp add: str_def p2)
  have e: "probe_endpoints null_item_site config_x commonEndpoints d =
       (d, map (head_request config_x) commonEndpoints)" for d
    by (simp add: commonEndpoints_def head_request_def null_item_site_def config_x_def str_def)
  show ?thesis
    by (simp add: discoverApi_def a has_get get_server_x d e)
qed





section \<open>Properties of the handler\<close>

text \<open>
  Claim C9. For every tool call, with any tool name and any arguments, the promise of
  the handler is fulfilled, never rejected: what the tool throws is turned into one
  text block \<^verbatim>\<open>Error: <message>\<close> with \<^verbatim>\<open>isError\<close> set, what it returns is passed on, and a
  name that is none of the four tools gives the error result \<^verbatim>\<open>Unknown tool: <name>\<close>.
\<close>

theorem handler_catches_every_failure:
  "(\<exists>r. fst (handler P this name args) = Inr r)
   \<and> (\<forall>e. fst (call_tool P this name args) = Inl e \<longrightarrow>
          fst (handler P this name args) =
            Inr \<lparr>content = [Text (str ''Error: '' @ message e)], isError = True\<rparr>)
   \<and> (\<forall>r. fst (call_tool P this name args) = Inr r \<longrightarrow> fst (handler P this name args) = Inr r)
   \<and> (name \<notin> {str ''add_api'', str ''list_apis'', str ''call_api'', str ''discover_api''} \<longrightarrow>
        fst (handler P this name args) =
          Inr \<lparr>content = [Text (str ''Error: Unknown tool: '' @ name)], isError = True\<rparr>)"
  by (cases "call_tool P this name args" rule: prod_cases3)
     (auto simp: handler_def error_result_def call_tool_def str_def split: sum.splits)

theorem handler_catches_every_failure_witness:
  "fst (call_tool offline server_x (str ''remove_api'') None)
     = Inl (Error (str ''Unknown tool: remove_api''))
   \<and> fst (handler offline server_x (str ''remove_api'') None) =
       Inr \<lparr>content = [Text (str ''Error: Unknown tool: remove_api'')], isError = True\<rparr>
   \<and> fst (call_tool offline server_x (str ''call_api'') (Some call_users))
     = Inl (FetchError (str ''request failed''))
   \<and> fst (handler offline server_x (str ''call_api'') (Some call_users)) =
       Inr \<lparr>content = [Text (str ''Error: request failed'')], isError = True\<rparr>
   \<and> fst (call_tool offline server_x (str ''list_apis'') None) = Inr (listApis server_x)
   \<and> fst (handler offline server_x (str ''list_apis'') None) = Inr (listApis server_x)"
proof -
  have u: "fst (call_tool offline server_x (str ''remove_api'') None)
             = Inl (Error (str ''Unknown tool: remove_api''))"
    by (simp add: call_tool_def str_def)
  have n: "str ''remove_api'' \<notin> {str ''add_api'', str ''list_apis'', str ''call_api'', str ''discover_api''}"
    by (simp add: str_def)
  have c: "fst (call_tool offline server_x (str ''call_api'') (Some call_users))
             = Inl (FetchError (str ''request failed''))"
    by (simp add: call_tool_def callApi_def has_get get_server_x call_users_def no_args_def
          offline_def Let_def) (simp add: str_def)
  have l: "fst (call_tool offline server_x (str ''list_apis'') None) = Inr (listApis server_x)"
    by (simp add: call_tool_def str_def)
  from handler_catches_every_failure [of offline server_x "str ''remove_api''" None]
       handler_catches_every_failure [of offline server_x "str ''call_api''" "Some call_users"]
       handler_catches_every_failure [of offline server_x "str ''list_apis''" None]
       u n c l
  show ?thesis by (simp add: str_def)
qed

text \<open>
  Claim C10. For every call of \<^verbatim>\<open>list_apis\<close>, \<^verbatim>\<open>call_api\<close> or \<^verbatim>\<open>discover_api\<close>, with any
  arguments and whether the tool returns or throws, the server afterwards is the server
  before: the registry holds the same entries, with the same names, base URLs and
  headers.
\<close>

theorem registry_unchanged_by_reads:
  assumes "name \<in> {str ''list_apis'', str ''call_api'', str ''discover_api''}"
  shows "fst (snd (handler P this name args)) = this
       \<and> fst (snd (call_tool P this name args)) = this"
  using assms
  by (auto simp: handler_def call_tool_def str_def split: sum.splits prod.splits)

theorem registry_unchanged_by_reads_witness:
  "str ''call_api'' \<in> {str ''list_apis'', str ''call_api'', str ''discover_api''}
   \<and> fst (snd (handler plain_text_site server_x (str ''call_api'') (Some call_users))) = server_x
   \<and> fst (snd (handler offline server_x (str ''discover_api'') (Some call_users))) = server_x
   \<and> fst (snd (handler offline server_x (str ''list_apis'') None)) = server_x"
proof -
  have 1: "str ''call_api'' \<in> {str ''list_apis'', str ''call_api'', str ''discover_api''}"
    and 2: "str ''discover_api'' \<in> {str ''list_apis'', str ''call_api'', str ''discover_api''}"
    and 3: "str ''list_apis'' \<in> {str ''list_apis'', str ''call_api'', str ''discover_api''}"
    by simp_all
  from registry_unchanged_by_reads [OF 1, of plain_text_site server_x "Some call_users"]
       registry_unchanged_by_reads [OF 2, of offline server_x "Some call_users"]
       registry_unchanged_by_reads [OF 3, of offline server_x None] 1
  show ?thesis by simp
qed

end
